theory Spec2Isabelle
  imports Main "HOL-Library.Word" "HOL-Library.Signed_Division"
begin

section \<open>Go values\<close>

text \<open>
  Go's \<open>int\<close> is taken at its 64-bit width: addition, subtraction and multiplication wrap
  around, and \<open>/\<close> truncates towards zero and panics on a zero divisor. A run-time panic
  is a value of the model. Slice lengths (\<open>len\<close>, \<open>Dims\<close>) are natural numbers.
\<close>

type_synonym goint = "64 word"

datatype panic = NilDereference | IndexOutOfRange | DivideByZero

definition bindP :: "panic + 'a \<Rightarrow> ('a \<Rightarrow> panic + 'b) \<Rightarrow> panic + 'b" where
  "bindP m f = (case m of Inl p \<Rightarrow> Inl p | Inr v \<Rightarrow> f v)"

definition elem_at :: "'a list \<Rightarrow> nat \<Rightarrow> panic + 'a" where
  \<comment> \<open>\<open>xs[i]\<close> for a constant index \<open>i\<close>: out of range panics.\<close>
  "elem_at xs i = (if i < length xs then Inr (xs ! i) else Inl IndexOutOfRange)"

definition godiv :: "goint \<Rightarrow> goint \<Rightarrow> panic + goint" where
  \<comment> \<open>\<open>a / b\<close> on \<open>int\<close>.\<close>
  "godiv a b = (if b = 0 then Inl DivideByZero else Inr (word_of_int (sint a sdiv sint b)))"

section \<open>The graph engine's values\<close>

text \<open>
  Nodes, graphs, element types and shapes belong to the external graph engine. A node is
  represented by the attributes this package reads (graph, element type, shape, name)
  together with an identity \<open>nid\<close>: two node handles are the same node exactly when they
  are equal. A \<open>*Node\<close> is a \<open>Node option\<close>, \<open>None\<close> being \<open>nil\<close>. The engine hands out
  node identities from a counter, which every allocating operation takes and returns.
\<close>

type_synonym Shape = "goint list"

datatype Dtype = Float64 | Float32 | OtherDtype string

typedecl float64

record Node =
  nid :: nat
  ngraph :: "nat option"
  ndtype :: Dtype
  nshape :: Shape
  nname :: string

definition Dims :: "Shape \<Rightarrow> nat" where
  "Dims s = length s"

definition NewTensor :: "nat option \<Rightarrow> Dtype \<Rightarrow> Shape \<Rightarrow> string \<Rightarrow> nat \<Rightarrow> Node \<times> nat" where
  \<comment> \<open>\<open>gorgonia.NewTensor(g, of, 4, WithShape(...), WithName(name), WithInit(...))\<close>:
      a new node of graph \<open>g\<close>, with the next identity.\<close>
  "NewTensor g dt shp nm k =
     (\<lparr>nid = k, ngraph = g, ndtype = dt, nshape = shp, nname = nm\<rparr>, Suc k)"

datatype ActivationFunction = Rectify | UserActivation nat

text \<open>
  A \<open>Layer\<close> interface value is \<open>nil\<close>, a \<open>*Conv\<close> (an address in the store of \<open>Conv\<close>
  objects, or a nil pointer of that type), or a layer of another type, named by its type.
\<close>

datatype Layer = NilLayer | ConvLayer "nat option" | OtherLayer string

datatype error =
    ExpectsNode
  | BadShape Shape
  | NonConv Layer
  | EngineError string
  | Wrapped string string "Shape list" error

text \<open>
  A \<open>gorgonia.Input\<close> is represented by what \<open>Node()\<close> returns and by the error it
  carries, which is what \<open>gorgonia.CheckOne\<close> reports. A \<open>gorgonia.Result\<close> is a node or
  an error.
\<close>

record Input =
  inode :: "Node option"
  ierr :: "error option"

definition CheckOne :: "Input \<Rightarrow> error option" where
  "CheckOne x = ierr x"

datatype Result = ResNode "Node option" | ResErr error

text \<open>
  The engine's fallible primitives are parameters of the model. Each takes and returns the
  counter of node identities, and returns an error or a node handle; a primitive or an
  option that itself panics is not modelled.
\<close>

record engine =
  Conv2d :: "Node option \<Rightarrow> Node option \<Rightarrow> Shape \<Rightarrow> goint list \<Rightarrow> goint list \<Rightarrow> goint list
               \<Rightarrow> nat \<Rightarrow> (error + Node option) \<times> nat"
  applyAct :: "ActivationFunction \<Rightarrow> Node option \<Rightarrow> nat \<Rightarrow> (error + Node option) \<times> nat"
  Dropout :: "Node option \<Rightarrow> float64 \<Rightarrow> nat \<Rightarrow> (error + Node option) \<times> nat"

section \<open>The convolution layer\<close>

record Conv =
  w :: "Node option"
  name :: string
  size_c :: "goint list"
  kernelShape :: Shape
  pad :: "goint list"
  stride :: "goint list"
  dilation :: "goint list"
  dropout :: "float64 option"
  act :: "ActivationFunction option"
  initialized :: bool
  computeFLOPs :: bool
  flops :: goint

definition defaultConv :: Conv where
  \<comment> \<open>The literal \<open>&Conv{...}\<close> of \<open>NewConv\<close>; the other fields have Go's zero values.\<close>
  "defaultConv =
     \<lparr>w = None, name = [], size_c = [], kernelShape = [5, 5], pad = [1, 1],
      stride = [1, 1], dilation = [1, 1], dropout = None, act = Some Rectify,
      initialized = False, computeFLOPs = False, flops = 0\<rparr>"

subsection \<open>Setters\<close>

definition SetDropout :: "Conv \<Rightarrow> float64 \<Rightarrow> error option \<times> Conv" where
  "SetDropout l d = (None, l\<lparr>dropout := Some d\<rparr>)"

definition SetSize :: "Conv \<Rightarrow> goint list \<Rightarrow> error option \<times> Conv" where
  "SetSize l s = (None, l\<lparr>size_c := s\<rparr>)"

definition SetName :: "Conv \<Rightarrow> string \<Rightarrow> error option \<times> Conv" where
  "SetName l n = (None, l\<lparr>name := n\<rparr>)"

definition SetActivationFn :: "Conv \<Rightarrow> ActivationFunction option \<Rightarrow> error option \<times> Conv" where
  "SetActivationFn l a = (None, l\<lparr>act := a\<rparr>)"

subsection \<open>Initialization and shape\<close>

text \<open>
  A method with receiver \<open>l *Conv\<close> takes the layer and returns it updated. \<open>Init\<close> reads
  \<open>xs[0]\<close>, the graph and element type of that node, and the first two entries of \<open>size\<close>
  and of \<open>kernelShape\<close>, all before it assigns anything.
\<close>

definition Init :: "Conv \<Rightarrow> Node option list \<Rightarrow> nat \<Rightarrow> panic + (error option \<times> Conv \<times> nat)" where
  "Init l xs k =
     bindP (elem_at xs 0) (\<lambda>x0.
     (case x0 of
        None \<Rightarrow> Inl NilDereference
      | Some x \<Rightarrow>
          let g = ngraph x; dt = ndtype x; nm = name l @ ''_w'' in
          bindP (elem_at (size_c l) 0) (\<lambda>s0.
          bindP (elem_at (size_c l) 1) (\<lambda>s1.
          bindP (elem_at (kernelShape l) 0) (\<lambda>k0.
          bindP (elem_at (kernelShape l) 1) (\<lambda>k1.
          (case NewTensor g dt [s0, s1, k0, k1] nm k of
             (n, k') \<Rightarrow> Inr (None, l\<lparr>w := Some n, initialized := True\<rparr>, k'))))))))"

definition Shape :: "Conv \<Rightarrow> panic + Shape" where
  "Shape l = (case w l of None \<Rightarrow> Inl NilDereference | Some wn \<Rightarrow> Inr (nshape wn))"

definition Model :: "Conv \<Rightarrow> Node option list" where
  "Model l = [w l]"

definition Name :: "Conv \<Rightarrow> string" where
  "Name l = name l"

definition FLOPs :: "Conv \<Rightarrow> goint" where
  "FLOPs l = flops l"

subsection \<open>The FLOPs estimate\<close>

definition instancesPerFilter :: "Conv \<Rightarrow> Shape \<Rightarrow> Shape \<Rightarrow> panic + goint" where
  \<comment> \<open>The two statements of \<open>doComputeFLOPs\<close> that compute \<open>instancesPerFilter\<close>.\<close>
  "instancesPerFilter l shp input =
     bindP (elem_at input 1) (\<lambda>i1.
     bindP (elem_at shp 2) (\<lambda>k2.
     bindP (elem_at (pad l) 0) (\<lambda>p0.
     bindP (elem_at (stride l) 0) (\<lambda>s0.
     bindP (godiv (i1 - k2 + 2 * p0) s0) (\<lambda>rows.
     bindP (elem_at input 2) (\<lambda>i2.
     bindP (elem_at shp 3) (\<lambda>k3.
     bindP (elem_at (pad l) 1) (\<lambda>p1.
     bindP (elem_at (stride l) 1) (\<lambda>s1.
     bindP (godiv (i2 - k3 + 2 * p1) s1) (\<lambda>cols.
     Inr ((rows + 1) * (cols + 1))))))))))))"

definition doComputeFLOPs :: "Conv \<Rightarrow> Shape \<Rightarrow> panic + goint" where
  "doComputeFLOPs l input =
     (case w l of
        None \<Rightarrow> Inl NilDereference
      | Some wn \<Rightarrow>
          let shp = nshape wn in
          bindP (elem_at shp 1) (\<lambda>c.
          bindP (elem_at shp 2) (\<lambda>kh.
          bindP (elem_at shp 3) (\<lambda>kw.
          let n = c * kh * kw; flopsPerInstance = n + 1 in
          bindP (instancesPerFilter l shp input) (\<lambda>ipf.
          let flopsPerFilter = ipf * flopsPerInstance in
          bindP (elem_at shp 0) (\<lambda>f.
          let retVal = flopsPerFilter * f in
          Inr (if act l \<noteq> None then retVal + f * ipf else retVal)))))))"

subsection \<open>The forward pass\<close>

definition wrapErr :: "Conv \<Rightarrow> string \<Rightarrow> Shape list \<Rightarrow> error \<Rightarrow> Result" where
  \<comment> \<open>Modelled from the spec: \<open>wrapErr\<close> is not among the sources. A failure "wraps the
      underlying error with the layer's type and a stage-specific message" and is returned
      as a failed result.\<close>
  "wrapErr l msg args err = ResErr (Wrapped ''*golgi.Conv'' msg args err)"

text \<open>
  \<open>Fwd\<close> returns its outcome together with the layer and the counter as they are when it
  returns or panics: what was assigned before a panic stays assigned. \<open>Fwd_apply\<close> is the
  part of \<open>Fwd\<close> after the lazy initialization, from the call of \<open>Conv2d\<close> on.
\<close>

definition Fwd_apply :: "engine \<Rightarrow> Conv \<Rightarrow> Node option \<Rightarrow> nat \<Rightarrow> (panic + Result) \<times> Conv \<times> nat" where
  "Fwd_apply E l xN k =
     (case Conv2d E xN (w l) (kernelShape l) (pad l) (stride l) (dilation l) k of
        (Inl err, k2) \<Rightarrow>
          (case xN of
             None \<Rightarrow> (Inl NilDereference, l, k2)
           | Some xn \<Rightarrow>
               (case w l of
                  None \<Rightarrow> (Inl NilDereference, l, k2)
                | Some wn \<Rightarrow>
                    (Inr (wrapErr l ''applying conv2d %v %v: %w'' [nshape xn, nshape wn] err), l, k2)))
      | (Inr c, k2) \<Rightarrow>
          (case act l of
             None \<Rightarrow> (Inl NilDereference, l, k2)
           | Some f \<Rightarrow>
               (case applyAct E f c k2 of
                  (Inl err, k3) \<Rightarrow>
                    (Inr (wrapErr l ''applying activation function: %w'' [] err), l, k3)
                | (Inr result, k3) \<Rightarrow>
                    (case (case dropout l of
                             None \<Rightarrow> (Inr result, k3)
                           | Some d \<Rightarrow> Dropout E result d k3) of
                       (Inl err, k4) \<Rightarrow> (Inr (wrapErr l ''applying dropout: %w'' [] err), l, k4)
                     | (Inr result', k4) \<Rightarrow>
                         (case (if computeFLOPs l
                                then (case xN of
                                        None \<Rightarrow> Inl NilDereference
                                      | Some xn \<Rightarrow>
                                          bindP (doComputeFLOPs l (nshape xn))
                                            (\<lambda>v. Inr (l\<lparr>flops := v\<rparr>)))
                                else Inr l) of
                            Inl p \<Rightarrow> (Inl p, l, k4)
                          | Inr l' \<Rightarrow>
                              (case result' of
                                 None \<Rightarrow> (Inl NilDereference, l', k4)
                               | Some r \<Rightarrow> (Inr (ResNode (Some r)), l', k4)))))))"

definition Fwd :: "engine \<Rightarrow> Conv \<Rightarrow> Input \<Rightarrow> nat \<Rightarrow> (panic + Result) \<times> Conv \<times> nat" where
  "Fwd E l x k =
     (case CheckOne x of
        Some err \<Rightarrow> (Inr (wrapErr l ''checking input: %w'' [] err), l, k)
      | None \<Rightarrow>
          let xN = inode x in
          if \<not> initialized l
          then (case Init l [xN] k of
                  Inl p \<Rightarrow> (Inl p, l, k)
                | Inr (Some err, l', k') \<Rightarrow>
                    (Inr (wrapErr l' ''Initializing a previously uninitialized Conv layer: %w'' [] err),
                     l', k')
                | Inr (None, l', k') \<Rightarrow> Fwd_apply E l' xN k')
          else Fwd_apply E l xN k)"

fun FwdSeq :: "engine \<Rightarrow> Conv \<Rightarrow> Input list \<Rightarrow> nat \<Rightarrow> Conv \<times> nat" where
  \<comment> \<open>A caller that calls \<open>Fwd\<close> on one input after the other.\<close>
  "FwdSeq E l [] k = (l, k)"
| "FwdSeq E l (x # xs) k = (case Fwd E l x k of (r, l', k') \<Rightarrow> FwdSeq E l' xs k')"

section \<open>Construction\<close>

text \<open>
  \<open>Conv\<close> objects reached through \<open>Layer\<close> values live in a store, a \<open>*Conv\<close> being an
  index into it. A construction option takes a \<open>Layer\<close> and the store, and returns a
  \<open>Layer\<close>, an optional error and the store as it leaves it. Go has no dangling pointers:
  an address outside the store is treated like \<open>nil\<close>.
\<close>

record world =
  convs :: "Conv list"
  nodeIds :: nat

type_synonym ('l, 's) ConsOpt = "'l \<Rightarrow> 's \<Rightarrow> ('l \<times> error option) \<times> 's"

fun NewConv_opts :: "nat option \<Rightarrow> (Layer, world) ConsOpt list \<Rightarrow> world
    \<Rightarrow> (nat option \<times> error option) \<times> world" where
  \<comment> \<open>The loop of \<open>NewConv\<close> over its options, \<open>l\<close> being the current \<open>*Conv\<close>.\<close>
  "NewConv_opts l [] W = ((l, None), W)"
| "NewConv_opts l (opt # opts) W =
     (case opt (ConvLayer l) W of
        ((o', Some err), W') \<Rightarrow> ((None, Some err), W')
      | ((o', None), W') \<Rightarrow>
          (case o' of
             ConvLayer l' \<Rightarrow> NewConv_opts l' opts W'
           | _ \<Rightarrow> ((None, Some (NonConv o')), W')))"

definition NewConv :: "(Layer, world) ConsOpt list \<Rightarrow> world \<Rightarrow> (nat option \<times> error option) \<times> world" where
  "NewConv opts W =
     NewConv_opts (Some (length (convs W))) opts (W\<lparr>convs := convs W @ [defaultConv]\<rparr>)"

definition ConsConv_build :: "Node \<Rightarrow> (Layer, world) ConsOpt list \<Rightarrow> world
    \<Rightarrow> (panic + (Layer \<times> error option)) \<times> world" where
  \<comment> \<open>\<open>ConsConv\<close> after its two checks: \<open>NewConv\<close>, then \<open>Init\<close> on the new layer.\<close>
  "ConsConv_build x opts W =
     (case NewConv opts W of
        ((l, Some err), W1) \<Rightarrow> (Inr (NilLayer, Some err), W1)
      | ((l, None), W1) \<Rightarrow>
          (case l of
             None \<Rightarrow> (Inl NilDereference, W1)
           | Some a \<Rightarrow>
               if a < length (convs W1)
               then (case Init (convs W1 ! a) [Some x] (nodeIds W1) of
                       Inl p \<Rightarrow> (Inl p, W1)
                     | Inr (Some err, c, k) \<Rightarrow>
                         (Inr (NilLayer, Some err), W1\<lparr>convs := (convs W1)[a := c], nodeIds := k\<rparr>)
                     | Inr (None, c, k) \<Rightarrow>
                         (Inr (ConvLayer (Some a), None),
                          W1\<lparr>convs := (convs W1)[a := c], nodeIds := k\<rparr>))
               else (Inl NilDereference, W1)))"

definition ConsConv :: "Input \<Rightarrow> (Layer, world) ConsOpt list \<Rightarrow> world
    \<Rightarrow> (panic + (Layer \<times> error option)) \<times> world" where
  "ConsConv inp opts W =
     (case inode inp of
        None \<Rightarrow> (Inr (NilLayer, Some ExpectsNode), W)
      | Some x \<Rightarrow>
          let inshape = nshape x in
          if Dims inshape \<noteq> 4 \<or> Dims inshape = 0
          then (Inr (NilLayer, Some (BadShape inshape)), W)
          else ConsConv_build x opts W)"

fun Redefine :: "'l \<Rightarrow> ('l, 's) ConsOpt list \<Rightarrow> 's \<Rightarrow> ('l \<times> error option) \<times> 's" where
  \<comment> \<open>In the loop, \<open>l, err := opt(l)\<close> declares new variables: the outer \<open>l\<close> is what every
      option receives and what is returned at the end.\<close>
  "Redefine l [] S = ((l, None), S)"
| "Redefine l (opt # opts) S =
     (case opt l S of
        ((l', Some err), S') \<Rightarrow> ((l', Some err), S')
      | ((l', None), S') \<Rightarrow> Redefine l opts S')"

subsection \<open>Example values\<close>

definition node0 :: Node where
  "node0 = \<lparr>nid = 0, ngraph = Some 0, ndtype = Float64, nshape = [1, 3, 32, 32], nname = ''x''\<rparr>"

definition input0 :: Input where
  "input0 = \<lparr>inode = Some node0, ierr = None\<rparr>"

definition failingEngine :: engine where
  \<comment> \<open>An engine whose primitives all report an error.\<close>
  "failingEngine =
     \<lparr>Conv2d = (\<lambda>x wt ks p s d k. (Inl (EngineError ''conv2d''), k)),
      applyAct = (\<lambda>f x k. (Inl (EngineError ''act''), k)),
      Dropout = (\<lambda>x d k. (Inl (EngineError ''dropout''), k))\<rparr>"

definition world0 :: world where
  "world0 = \<lparr>convs = [], nodeIds = 1\<rparr>"

definition world1 :: world where
  \<comment> \<open>A store holding one layer as \<open>NewConv\<close> creates it, at address 0.\<close>
  "world1 = \<lparr>convs = [defaultConv], nodeIds = 1\<rparr>"

definition withSize :: "goint list \<Rightarrow> (Layer, world) ConsOpt" where
  \<comment> \<open>An option that sets the size of a \<open>*Conv\<close> through \<open>SetSize\<close>, and fails with a nil
      layer on anything else.\<close>
  "withSize s l W =
     (case l of
        ConvLayer (Some a) \<Rightarrow>
          if a < length (convs W)
          then (case SetSize (convs W ! a) s of
                  (err, c) \<Rightarrow> ((l, err), W\<lparr>convs := (convs W)[a := c]\<rparr>))
          else ((NilLayer, Some (EngineError ''unhandled layer'')), W)
      | _ \<Rightarrow> ((NilLayer, Some (EngineError ''unhandled layer'')), W))"

definition unsupportedOpt :: "(Layer, world) ConsOpt" where
  \<comment> \<open>An option that supports no layer: it returns a nil layer and an error.\<close>
  "unsupportedOpt l W = ((NilLayer, Some (EngineError ''unhandled layer'')), W)"

text \<open>
  The closed form as the specification words it, over the integers: the input shape is
  (batch, channel, height, width), and the divisions are floors.
\<close>

definition spec_instancesPerFilter :: "int \<Rightarrow> int \<Rightarrow> int \<Rightarrow> int \<Rightarrow> int \<Rightarrow> int \<Rightarrow> int \<Rightarrow> int \<Rightarrow> int" where
  "spec_instancesPerFilter Kh Kw padH padW strideH strideW inputHeight inputWidth =
     ((inputHeight - Kh + 2 * padH) div strideH + 1) *
     ((inputWidth - Kw + 2 * padW) div strideW + 1)"

definition spec_FLOPs :: "int \<Rightarrow> int \<Rightarrow> int \<Rightarrow> int \<Rightarrow> int \<Rightarrow> int \<Rightarrow> int \<Rightarrow> int \<Rightarrow> int \<Rightarrow> int \<Rightarrow> bool \<Rightarrow> int" where
  "spec_FLOPs F C Kh Kw padH padW strideH strideW inputHeight inputWidth hasAct =
     (let n = C * Kh * Kw;
          flopsPerInstance = n + 1;
          ipf = spec_instancesPerFilter Kh Kw padH padW strideH strideW inputHeight inputWidth;
          flopsPerFilter = ipf * flopsPerInstance;
          total = flopsPerFilter * F
      in if hasAct then total + F * ipf else total)"

definition scenarioConv :: "ActivationFunction option \<Rightarrow> Conv" where
  \<comment> \<open>The layer of the specification's concrete scenario: weight shape (6,3,5,5),
      pad (1,1), stride (1,1).\<close>
  "scenarioConv a =
     defaultConv\<lparr>w := Some \<lparr>nid = 0, ngraph = Some 0, ndtype = Float64,
                             nshape = [6, 3, 5, 5], nname = ''_w''\<rparr>,
                 size_c := [6, 3], act := a, initialized := True\<rparr>"

section \<open>Properties of the FLOPs estimate\<close>

lemma elem_at_simps:
  "elem_at (x # xs) 0 = Inr x"
  "elem_at [] i = Inl IndexOutOfRange"
  "elem_at (x # xs) (Suc i) = elem_at xs i"
  by (simp_all add: elem_at_def)

lemma bindP_simps:
  "bindP (Inl p) f = Inl p"
  "bindP (Inr v) f = f v"
  by (simp_all add: bindP_def)



lemma instancesPerFilter_act [simp]:
  "instancesPerFilter (l\<lparr>act := a\<rparr>) shp input = instancesPerFilter l shp input"
  by (simp add: instancesPerFilter_def)



text \<open>
  C1. The claim: for a 4-D input shape (batch, channel, height, width) the estimate is
  the closed form over the input's height and width, and in particular it is 410400
  (415800 with an activation function) for weight shape (6,3,5,5), pad (1,1), stride
  (1,1) and input shape (batch,3,32,32). At that input \<open>doComputeFLOPs\<close> returns 13680
  and 13860 for every batch size: it reads \<open>input[1]\<close> and \<open>input[2]\<close>, the channel and the
  height, where its comments say rows and columns. The closed form of the specification
  gives 410400 and 415800 there.
\<close>

theorem doComputeFLOPs_scenario:
  "doComputeFLOPs (scenarioConv None) [b, 3, 32, 32] = Inr 13680
   \<and> doComputeFLOPs (scenarioConv (Some Rectify)) [b, 3, 32, 32] = Inr 13860
   \<and> spec_FLOPs 6 3 5 5 1 1 1 1 32 32 False = 410400
   \<and> spec_FLOPs 6 3 5 5 1 1 1 1 32 32 True = 415800"
  by (simp add: doComputeFLOPs_def instancesPerFilter_def scenarioConv_def defaultConv_def
      spec_FLOPs_def spec_instancesPerFilter_def elem_at_def bindP_def godiv_def)



text \<open>
  C3. The estimate is a function of the weight shape, pad, stride, whether an activation
  function is set, and the input shape, and of nothing else: two calls that agree on
  these return the same integer (or panic alike), whatever the other fields of the layer
  hold.
\<close>

theorem doComputeFLOPs_deterministic:
  assumes "map_option nshape (w l1) = map_option nshape (w l2)"
    and "pad l1 = pad l2" "stride l1 = stride l2"
    and "(act l1 = None) = (act l2 = None)"
  shows "doComputeFLOPs l1 input = doComputeFLOPs l2 input"
  using assms
  by (cases "w l1"; cases "w l2") (simp_all add: doComputeFLOPs_def instancesPerFilter_def)

theorem doComputeFLOPs_deterministic_witness:
  "map_option nshape (w (scenarioConv (Some Rectify))) =
     map_option nshape (w ((scenarioConv (Some (UserActivation 7)))
        \<lparr>name := ''other'', flops := 99, computeFLOPs := True\<rparr>))
   \<and> doComputeFLOPs (scenarioConv (Some Rectify)) [1, 3, 32, 32]
     = doComputeFLOPs ((scenarioConv (Some (UserActivation 7)))
        \<lparr>name := ''other'', flops := 99, computeFLOPs := True\<rparr>) [1, 3, 32, 32]"
proof -
  let ?l1 = "scenarioConv (Some Rectify)"
  let ?l2 = "(scenarioConv (Some (UserActivation 7)))
      \<lparr>name := ''other'', flops := 99, computeFLOPs := True\<rparr>"
  have h1: "map_option nshape (w ?l1) = map_option nshape (w ?l2)"
    by (simp add: scenarioConv_def)
  have h2: "pad ?l1 = pad ?l2" by (simp add: scenarioConv_def)
  have h3: "stride ?l1 = stride ?l2" by (simp add: scenarioConv_def)
  have h4: "(act ?l1 = None) = (act ?l2 = None)" by (simp add: scenarioConv_def)
  show ?thesis using doComputeFLOPs_deterministic [OF h1 h2 h3 h4] h1 by simp
qed

section \<open>Properties of construction\<close>

text \<open>
  C4. \<open>ConsConv\<close> returns an error, and no layer, for every input whose node handle is
  nil; for every input whose shape has a rank other than 4 it returns an error that carries
  that shape; for an input of rank 4 both checks pass and construction goes on with
  \<open>NewConv\<close> and \<open>Init\<close>.
\<close>

theorem ConsConv_checks:
  "(inode inp = None \<longrightarrow> ConsConv inp opts W = (Inr (NilLayer, Some ExpectsNode), W))
   \<and> (\<forall>x. inode inp = Some x \<and> Dims (nshape x) \<noteq> 4 \<longrightarrow>
         ConsConv inp opts W = (Inr (NilLayer, Some (BadShape (nshape x))), W))
   \<and> (\<forall>x. inode inp = Some x \<and> Dims (nshape x) = 4 \<longrightarrow>
         ConsConv inp opts W = ConsConv_build x opts W)"
  by (simp add: ConsConv_def)

theorem ConsConv_checks_witness:
  "inode \<lparr>inode = None, ierr = None\<rparr> = None
   \<and> ConsConv \<lparr>inode = None, ierr = None\<rparr> [withSize [6, 3]] world0
       = (Inr (NilLayer, Some ExpectsNode), world0)
   \<and> Dims (nshape (node0\<lparr>nshape := [3, 32, 32]\<rparr>)) \<noteq> 4
   \<and> ConsConv \<lparr>inode = Some (node0\<lparr>nshape := [3, 32, 32]\<rparr>), ierr = None\<rparr>
         [withSize [6, 3]] world0
       = (Inr (NilLayer, Some (BadShape [3, 32, 32])), world0)
   \<and> Dims (nshape node0) = 4
   \<and> ConsConv input0 [withSize [6, 3]] world0 =
       (Inr (ConvLayer (Some 0), None),
        \<lparr>convs = [defaultConv\<lparr>size_c := [6, 3],
            w := Some \<lparr>nid = 1, ngraph = Some 0, ndtype = Float64, nshape = [6, 3, 5, 5],
                       nname = ''_w''\<rparr>,
            initialized := True\<rparr>],
         nodeIds = 2\<rparr>)"
proof -
  let ?i1 = "\<lparr>inode = None, ierr = None\<rparr> :: Input"
  let ?x2 = "node0\<lparr>nshape := [3, 32, 32]\<rparr>"
  let ?i2 = "\<lparr>inode = Some ?x2, ierr = None\<rparr>"
  let ?opts = "[withSize [6, 3]]"
  have h1: "inode ?i1 = None" by simp
  have h2: "inode ?i2 = Some ?x2" by simp
  have d2: "Dims (nshape ?x2) \<noteq> 4" by (simp add: Dims_def)
  have h3: "inode input0 = Some node0" by (simp add: input0_def)
  have d3: "Dims (nshape node0) = 4" by (simp add: Dims_def node0_def)
  have a: "ConsConv ?i1 ?opts world0 = (Inr (NilLayer, Some ExpectsNode), world0)"
    using ConsConv_checks [of ?i1 ?opts world0] h1 by blast
  have "ConsConv ?i2 ?opts world0 = (Inr (NilLayer, Some (BadShape (nshape ?x2))), world0)"
    using ConsConv_checks [of ?i2 ?opts world0] h2 d2 by blast
  then have b: "ConsConv ?i2 ?opts world0 = (Inr (NilLayer, Some (BadShape [3, 32, 32])), world0)"
    by simp
  have "ConsConv input0 ?opts world0 = ConsConv_build node0 ?opts world0"
    using ConsConv_checks [of input0 ?opts world0] h3 d3 by blast
  also have "\<dots> = (Inr (ConvLayer (Some 0), None),
        \<lparr>convs = [defaultConv\<lparr>size_c := [6, 3],
            w := Some \<lparr>nid = 1, ngraph = Some 0, ndtype = Float64, nshape = [6, 3, 5, 5],
                       nname = ''_w''\<rparr>,
            initialized := True\<rparr>],
         nodeIds = 2\<rparr>)"
    by (simp add: ConsConv_build_def NewConv_def withSize_def SetSize_def world0_def Init_def
        NewTensor_def node0_def defaultConv_def elem_at_def bindP_def)
  finally have c: "ConsConv input0 ?opts world0 = (Inr (ConvLayer (Some 0), None),
        \<lparr>convs = [defaultConv\<lparr>size_c := [6, 3],
            w := Some \<lparr>nid = 1, ngraph = Some 0, ndtype = Float64, nshape = [6, 3, 5, 5],
                       nname = ''_w''\<rparr>,
            initialized := True\<rparr>],
         nodeIds = 2\<rparr>)" .
  show ?thesis using h1 a d2 b d3 c by blast
qed

text \<open>
  C8. \<open>NewConv\<close> with no options returns, without error, a new \<open>Conv\<close> whose activation
  function is the rectifier, whose kernel shape is (5,5), and whose pad, stride and
  dilation are (1,1) each.
\<close>

theorem NewConv_defaults:
  "(case NewConv [] W of
      ((Some a, None), W') \<Rightarrow>
        a = length (convs W) \<and> convs W' = convs W @ [convs W' ! a] \<and>
        act (convs W' ! a) = Some Rectify \<and> kernelShape (convs W' ! a) = [5, 5] \<and>
        pad (convs W' ! a) = [1, 1] \<and> stride (convs W' ! a) = [1, 1] \<and>
        dilation (convs W' ! a) = [1, 1]
    | _ \<Rightarrow> False)"
  by (simp add: NewConv_def defaultConv_def)

section \<open>Properties of Redefine\<close>

lemma Redefine_append:
  "Redefine l (pre @ rest) S =
     (case Redefine l pre S of
        ((l', Some err), S') \<Rightarrow> ((l', Some err), S')
      | ((l', None), S') \<Rightarrow> Redefine l rest S')"
  by (induction pre arbitrary: S) (auto split: prod.splits option.splits)

text \<open>
  C6. For every layer, \<open>Redefine\<close> with an empty option list returns the layer it was
  given and a nil error, and leaves the store as it is.
\<close>

theorem Redefine_no_options: "Redefine l [] S = ((l, None), S)"
  by simp

text \<open>
  C7, as claimed: when an option fails, \<open>Redefine\<close> returns the layer as it was just before
  the failing option. It does not: it returns the layer that the failing option itself
  returned. An option that does not support the layer, returning nil and an error, makes
  \<open>Redefine\<close> return nil, not the layer it was called on.
\<close>

theorem Redefine_returns_failing_layer:
  "Redefine (ConvLayer (Some 0)) [unsupportedOpt] world1 =
     ((NilLayer, Some (EngineError ''unhandled layer'')), world1)
   \<and> fst (fst (Redefine (ConvLayer (Some 0)) [unsupportedOpt] world1)) \<noteq> ConvLayer (Some 0)"
  by (simp add: unsupportedOpt_def)

text \<open>
  C7, amended. \<open>Redefine\<close> applies the options one after the other, each on the store the
  previous one left. When the options of \<open>pre\<close> have all succeeded and the next option
  fails, \<open>Redefine\<close> stops there: it returns that option's error together with the layer value
  that option returned and the store as that option left it, whatever options follow.
\<close>

theorem Redefine_first_failure:
  assumes "Redefine l pre S = ((l0, None), S1)"
    and "opt l S1 = ((l', Some err), S2)"
  shows "Redefine l (pre @ opt # post) S = ((l', Some err), S2)"
  using assms by (simp add: Redefine_append)

theorem Redefine_first_failure_witness:
  "Redefine (ConvLayer (Some 0)) [withSize [6, 3]] world1 =
     ((ConvLayer (Some 0), None), world1\<lparr>convs := [defaultConv\<lparr>size_c := [6, 3]\<rparr>]\<rparr>)
   \<and> unsupportedOpt (ConvLayer (Some 0)) (world1\<lparr>convs := [defaultConv\<lparr>size_c := [6, 3]\<rparr>]\<rparr>) =
       ((NilLayer, Some (EngineError ''unhandled layer'')),
        world1\<lparr>convs := [defaultConv\<lparr>size_c := [6, 3]\<rparr>]\<rparr>)
   \<and> Redefine (ConvLayer (Some 0)) ([withSize [6, 3]] @ unsupportedOpt # [withSize [1, 1]]) world1 =
       ((NilLayer, Some (EngineError ''unhandled layer'')),
        world1\<lparr>convs := [defaultConv\<lparr>size_c := [6, 3]\<rparr>]\<rparr>)"
proof -
  let ?W = "world1\<lparr>convs := [defaultConv\<lparr>size_c := [6, 3]\<rparr>]\<rparr>"
  have h1: "Redefine (ConvLayer (Some 0)) [withSize [6, 3]] world1 = ((ConvLayer (Some 0), None), ?W)"
    by (simp add: withSize_def SetSize_def world1_def)
  have h2: "unsupportedOpt (ConvLayer (Some 0)) ?W =
      ((NilLayer, Some (EngineError ''unhandled layer'')), ?W)"
    by (simp add: unsupportedOpt_def)
  show ?thesis
    using Redefine_first_failure [where opt = unsupportedOpt and post = "[withSize [1, 1]]", OF h1 h2]
      h1 h2
    by blast
qed

section \<open>Properties of initialization and the forward pass\<close>

lemma Init_returns:
  assumes "2 \<le> length (size_c l)" "2 \<le> length (kernelShape l)"
  shows "Init l (Some x # xs) k =
    Inr (None, l\<lparr>w := Some \<lparr>nid = k, ngraph = ngraph x, ndtype = ndtype x,
         nshape = [size_c l ! 0, size_c l ! 1, kernelShape l ! 0, kernelShape l ! 1],
         nname = name l @ ''_w''\<rparr>, initialized := True\<rparr>, Suc k)"
proof -
  have s: "elem_at (size_c l) 0 = Inr (size_c l ! 0)" "elem_at (size_c l) 1 = Inr (size_c l ! 1)"
    using assms(1) by (auto simp add: elem_at_def)
  have ks: "elem_at (kernelShape l) 0 = Inr (kernelShape l ! 0)"
    "elem_at (kernelShape l) 1 = Inr (kernelShape l ! 1)"
    using assms(2) by (auto simp add: elem_at_def)
  show ?thesis
    unfolding Init_def s ks by (simp add: elem_at_simps bindP_simps NewTensor_def)
qed

lemma Init_nil_error:
  assumes "Init l xs k = Inr (e, l', k')"
  shows "e = None \<and> initialized l' \<and> (\<exists>n. w l' = Some n \<and> nid n = k \<and>
     nshape n = [size_c l ! 0, size_c l ! 1, kernelShape l ! 0, kernelShape l ! 1])"
  using assms
  by (auto simp add: Init_def bindP_def elem_at_def NewTensor_def
      split: sum.splits option.splits if_splits)

lemma Fwd_apply_keeps:
  assumes "Fwd_apply E l xN k = (r, l', k')"
  shows "w l' = w l \<and> initialized l' = initialized l"
  using assms
  by (auto simp add: Fwd_apply_def bindP_def
      split: sum.splits option.splits if_splits prod.splits)

lemma Fwd_initialized_keeps:
  assumes "initialized l" "Fwd E l x k = (r, l', k')"
  shows "w l' = w l \<and> initialized l'"
  using assms Fwd_apply_keeps [of E l "inode x" k r l' k']
  by (auto simp add: Fwd_def Let_def split: option.splits)

lemma FwdSeq_keeps:
  "initialized l \<Longrightarrow> initialized (fst (FwdSeq E l xs k)) \<and> w (fst (FwdSeq E l xs k)) = w l"
proof (induction xs arbitrary: l k)
  case Nil
  then show ?case by simp
next
  case (Cons x xs)
  obtain r l' k' where f: "Fwd E l x k = (r, l', k')" by (cases "Fwd E l x k") auto
  from Fwd_initialized_keeps [OF Cons.prems f] have "w l' = w l" "initialized l'" by simp_all
  with Cons.IH [of l' k'] f show ?case by simp
qed




text \<open>
  C5, as claimed: for every layer that is not yet initialized, the first \<open>Fwd\<close> with a valid
  input initializes it. On the layer that \<open>NewConv\<close> creates without options, \<open>Fwd\<close> with a
  valid input panics inside \<open>Init\<close>, at \<open>l.size[0]\<close>, and leaves the layer as it was, not
  initialized.
\<close>

theorem Fwd_default_layer_panics:
  "\<not> initialized defaultConv \<and> CheckOne input0 = None \<and> inode input0 = Some node0
   \<and> Fwd failingEngine defaultConv input0 1 = (Inl IndexOutOfRange, defaultConv, 1)"
  by (simp add: Fwd_def Init_def defaultConv_def input0_def CheckOne_def elem_at_def bindP_def)

text \<open>
  C5, amended. For every layer that is not yet initialized and whose \<open>size\<close> and
  \<open>kernelShape\<close> have at least two entries each, the first \<open>Fwd\<close> with a valid input (one
  that carries no error and a node) initializes the layer, whatever the engine's primitives
  do afterwards: the weight is a new node of the input's graph and element type, and the
  flag is set. Every later \<open>Fwd\<close>, on any input, finds the flag set and keeps that same
  weight node.
\<close>

theorem Fwd_initializes_once:
  assumes "\<not> initialized l" "2 \<le> length (size_c l)" "2 \<le> length (kernelShape l)"
    and "CheckOne x = None" "inode x = Some xn"
    and "Fwd E l x k = (r, l1, k1)"
  shows "initialized l1
    \<and> w l1 = Some \<lparr>nid = k, ngraph = ngraph xn, ndtype = ndtype xn,
         nshape = [size_c l ! 0, size_c l ! 1, kernelShape l ! 0, kernelShape l ! 1],
         nname = name l @ ''_w''\<rparr>
    \<and> (\<forall>xs k'. initialized (fst (FwdSeq E l1 xs k')) \<and> w (fst (FwdSeq E l1 xs k')) = w l1)"
proof -
  let ?n = "\<lparr>nid = k, ngraph = ngraph xn, ndtype = ndtype xn,
         nshape = [size_c l ! 0, size_c l ! 1, kernelShape l ! 0, kernelShape l ! 1],
         nname = name l @ ''_w''\<rparr>"
  let ?l = "l\<lparr>w := Some ?n, initialized := True\<rparr>"
  have i: "Init l [Some xn] k = Inr (None, ?l, Suc k)"
    using Init_returns [OF assms(2,3)] by simp
  have "Fwd E l x k = Fwd_apply E ?l (Some xn) (Suc k)"
    using assms(1,4,5) i by (simp add: Fwd_def)
  with assms(6) have "Fwd_apply E ?l (Some xn) (Suc k) = (r, l1, k1)" by simp
  from Fwd_apply_keeps [OF this] have a: "initialized l1" and b: "w l1 = Some ?n" by simp_all
  from FwdSeq_keeps [OF a] a b show ?thesis by blast
qed

theorem Fwd_initializes_once_witness:
  "\<not> initialized (defaultConv\<lparr>size_c := [6, 3]\<rparr>)
   \<and> CheckOne input0 = None \<and> inode input0 = Some node0
   \<and> Fwd failingEngine (defaultConv\<lparr>size_c := [6, 3]\<rparr>) input0 1 =
       (Inr (wrapErr defaultConv ''applying conv2d %v %v: %w'' [[1, 3, 32, 32], [6, 3, 5, 5]]
              (EngineError ''conv2d'')),
        defaultConv\<lparr>size_c := [6, 3],
          w := Some \<lparr>nid = 1, ngraph = Some 0, ndtype = Float64, nshape = [6, 3, 5, 5],
                     nname = ''_w''\<rparr>,
          initialized := True\<rparr>, 2)
   \<and> w (fst (FwdSeq failingEngine
        (defaultConv\<lparr>size_c := [6, 3],
          w := Some \<lparr>nid = 1, ngraph = Some 0, ndtype = Float64, nshape = [6, 3, 5, 5],
                     nname = ''_w''\<rparr>,
          initialized := True\<rparr>) [input0, input0] 2))
      = Some \<lparr>nid = 1, ngraph = Some 0, ndtype = Float64, nshape = [6, 3, 5, 5], nname = ''_w''\<rparr>"
proof -
  let ?l = "defaultConv\<lparr>size_c := [6, 3]\<rparr>"
  let ?n = "\<lparr>nid = 1, ngraph = Some 0, ndtype = Float64, nshape = [6, 3, 5, 5 :: goint],
             nname = ''_w''\<rparr>"
  let ?l1 = "defaultConv\<lparr>size_c := [6, 3], w := Some ?n, initialized := True\<rparr>"
  let ?r = "Inr (wrapErr defaultConv ''applying conv2d %v %v: %w'' [[1, 3, 32, 32], [6, 3, 5, 5]]
              (EngineError ''conv2d''))"
  have h1: "\<not> initialized ?l" by (simp add: defaultConv_def)
  have h2: "2 \<le> length (size_c ?l)" by simp
  have h3: "2 \<le> length (kernelShape ?l)" by (simp add: defaultConv_def)
  have h4: "CheckOne input0 = None" by (simp add: CheckOne_def input0_def)
  have h5: "inode input0 = Some node0" by (simp add: input0_def)
  have h6: "Fwd failingEngine ?l input0 1 = (?r, ?l1, 2)"
    by (simp add: Fwd_def Fwd_apply_def Init_def NewTensor_def CheckOne_def input0_def
        node0_def defaultConv_def failingEngine_def wrapErr_def elem_at_def bindP_def)
  from Fwd_initializes_once [OF h1 h2 h3 h4 h5 h6]
  have "\<forall>xs k'. initialized (fst (FwdSeq failingEngine ?l1 xs k'))
      \<and> w (fst (FwdSeq failingEngine ?l1 xs k')) = w ?l1"
    by blast
  then have "w (fst (FwdSeq failingEngine ?l1 [input0, input0] 2)) = w ?l1"
    by blast
  then have k: "w (fst (FwdSeq failingEngine ?l1 [input0, input0] 2)) = Some ?n"
    by simp
  show ?thesis
    using h1 h4 h5 h6 k by blast
qed

text \<open>
  C10. \<open>Shape\<close> dereferences the weight handle whatever the state of the layer: with a
  weight node it returns that node's shape, so after \<open>Init\<close> it returns the shape given
  by \<open>size\<close> and \<open>kernelShape\<close>; with a nil weight handle, as on the layer that \<open>NewConv\<close>
  creates, it panics on the nil pointer and returns neither a value nor an error.
\<close>

theorem Shape_weight:
  "(w l = None \<longrightarrow> Shape l = Inl NilDereference)
   \<and> (\<forall>n. w l = Some n \<longrightarrow> Shape l = Inr (nshape n))
   \<and> (\<forall>e l' k'. Init l xs k = Inr (e, l', k') \<longrightarrow>
        Shape l' = Inr [size_c l ! 0, size_c l ! 1, kernelShape l ! 0, kernelShape l ! 1])
   \<and> (case NewConv [] W of
        ((Some a, None), W') \<Rightarrow> Shape (convs W' ! a) = Inl NilDereference
      | _ \<Rightarrow> False)"
proof -
  have "Shape l' = Inr [size_c l ! 0, size_c l ! 1, kernelShape l ! 0, kernelShape l ! 1]"
    if "Init l xs k = Inr (e, l', k')" for e l' k'
    using Init_nil_error [OF that] by (auto simp add: Shape_def)
  then show ?thesis
    by (auto simp add: Shape_def NewConv_def defaultConv_def)
qed

theorem Shape_weight_witness:
  "w defaultConv = None \<and> Shape defaultConv = Inl NilDereference
   \<and> w (scenarioConv None) =
       Some \<lparr>nid = 0, ngraph = Some 0, ndtype = Float64, nshape = [6, 3, 5, 5], nname = ''_w''\<rparr>
   \<and> Shape (scenarioConv None) = Inr [6, 3, 5, 5]
   \<and> Init (defaultConv\<lparr>size_c := [6, 3]\<rparr>) [Some node0] 1 =
       Inr (None, defaultConv\<lparr>size_c := [6, 3],
          w := Some \<lparr>nid = 1, ngraph = Some 0, ndtype = Float64, nshape = [6, 3, 5, 5],
                     nname = ''_w''\<rparr>,
          initialized := True\<rparr>, 2)
   \<and> Shape (defaultConv\<lparr>size_c := [6, 3],
          w := Some \<lparr>nid = 1, ngraph = Some 0, ndtype = Float64, nshape = [6, 3, 5, 5],
                     nname = ''_w''\<rparr>,
          initialized := True\<rparr>) = Inr [6, 3, 5, 5]"
proof -
  let ?n = "\<lparr>nid = 0, ngraph = Some 0, ndtype = Float64, nshape = [6, 3, 5, 5 :: goint],
             nname = ''_w''\<rparr>"
  let ?l = "defaultConv\<lparr>size_c := [6, 3]\<rparr>"
  let ?l' = "defaultConv\<lparr>size_c := [6, 3],
          w := Some \<lparr>nid = 1, ngraph = Some 0, ndtype = Float64, nshape = [6, 3, 5, 5],
                     nname = ''_w''\<rparr>,
          initialized := True\<rparr>"
  have h1: "w defaultConv = None" by (simp add: defaultConv_def)
  have h2: "w (scenarioConv None) = Some ?n" by (simp add: scenarioConv_def)
  have h3: "Init ?l [Some node0] 1 = Inr (None, ?l', 2)"
    by (simp add: Init_def NewTensor_def node0_def defaultConv_def elem_at_def bindP_def)
  have a: "Shape defaultConv = Inl NilDereference"
    using Shape_weight [of defaultConv "[]" 0 world0] h1 by simp
  have b: "Shape (scenarioConv None) = Inr [6, 3, 5, 5]"
    using Shape_weight [of "scenarioConv None" "[]" 0 world0] h2 by simp
  have c: "Shape ?l' = Inr [6, 3, 5, 5]"
    using Shape_weight [of ?l "[Some node0]" 1 world0] h3 by (simp add: defaultConv_def)
  show ?thesis using h1 h2 h3 a b c by simp
qed

end
